theory Spec2Isabelle
  imports Main "HOL-Library.Word"
begin

unbundle bit_operations_syntax

section \<open>The collaborators of \<open>openvpn/addr/ip.hpp\<close>\<close>

subsection \<open>The generic address of the networking library\<close>

text \<open>
  \<open>boost::asio::ip::address\<close> is used by \<open>ip.hpp\<close> through \<open>is_v4()\<close>, \<open>is_v6()\<close>,
  \<open>to_v4()\<close>, \<open>to_v6()\<close>, the converting constructors from \<open>address_v4\<close> and
  \<open>address_v6\<close>, \<open>from_string(str, ec)\<close> and \<open>to_string(ec)\<close>. The header is not part
  of the repository. A v4 address is its 32-bit host-order value, a v6 address its 128-bit
  value; \<open>Asio_other\<close> stands for a generic address for which both \<open>is_v4()\<close> and
  \<open>is_v6()\<close> answer false, the case \<open>from_asio\<close> guards against.
\<close>

type_synonym address_v4 = "32 word"
type_synonym address_v6 = "128 word"

datatype asio_address = Asio_v4 address_v4 | Asio_v6 address_v6 | Asio_other

fun is_v4 :: "asio_address \<Rightarrow> bool" where
  "is_v4 (Asio_v4 _) = True"
| "is_v4 _ = False"

fun is_v6 :: "asio_address \<Rightarrow> bool" where
  "is_v6 (Asio_v6 _) = True"
| "is_v6 _ = False"

text \<open>
  A \<open>boost::system::error_code\<close> that is set (\<open>if (ec)\<close> holds), with its \<open>message()\<close>.
  A library call that takes an \<open>ec\<close> out-parameter returns \<open>Inl\<close> of the code it set, or
  \<open>Inr\<close> of its result when it left \<open>ec\<close> clear.
\<close>

datatype error_code = Error_code (message: string)

type_synonym asio_parser = "string \<Rightarrow> error_code + asio_address"
type_synonym asio_renderer = "asio_address \<Rightarrow> error_code + string"

subsection \<open>The IPv4 and IPv6 address values\<close>

text \<open>
  Modelled from the spec: \<open>openvpn/addr/ipv4.hpp\<close> (\<open>IPv4::Addr\<close>) is not among the
  sources. The spec asks of it construction from the external representation, bitwise
  AND/OR on the underlying fixed-width value, an unspecified check for the all-zero value,
  and construction from a 32-bit host-order integer (\<open>base_type\<close>).
\<close>

type_synonym IPv4_base_type = "32 word"

datatype IPv4_Addr = IPv4_Addr (IPv4_to_uint32: IPv4_base_type)

definition IPv4_from_uint32 :: "IPv4_base_type \<Rightarrow> IPv4_Addr" where
  "IPv4_from_uint32 addr = IPv4_Addr addr"

definition IPv4_from_asio :: "address_v4 \<Rightarrow> IPv4_Addr" where
  "IPv4_from_asio asio_addr = IPv4_Addr asio_addr"

definition IPv4_to_asio :: "IPv4_Addr \<Rightarrow> address_v4" where
  "IPv4_to_asio a = IPv4_to_uint32 a"

definition IPv4_and :: "IPv4_Addr \<Rightarrow> IPv4_Addr \<Rightarrow> IPv4_Addr" where
  "IPv4_and a b = IPv4_Addr (IPv4_to_uint32 a AND IPv4_to_uint32 b)"

definition IPv4_or :: "IPv4_Addr \<Rightarrow> IPv4_Addr \<Rightarrow> IPv4_Addr" where
  "IPv4_or a b = IPv4_Addr (IPv4_to_uint32 a OR IPv4_to_uint32 b)"

definition IPv4_unspecified :: "IPv4_Addr \<Rightarrow> bool" where
  "IPv4_unspecified a = (IPv4_to_uint32 a = 0)"

text \<open>
  Modelled from the spec: \<open>openvpn/addr/ipv6.hpp\<close> (\<open>IPv6::Addr\<close>) is not among the
  sources. The same capabilities as for IPv4, on a 128-bit value.
\<close>

datatype IPv6_Addr = IPv6_Addr (IPv6_bits: "128 word")

definition IPv6_from_asio :: "address_v6 \<Rightarrow> IPv6_Addr" where
  "IPv6_from_asio asio_addr = IPv6_Addr asio_addr"

definition IPv6_to_asio :: "IPv6_Addr \<Rightarrow> address_v6" where
  "IPv6_to_asio a = IPv6_bits a"

definition IPv6_and :: "IPv6_Addr \<Rightarrow> IPv6_Addr \<Rightarrow> IPv6_Addr" where
  "IPv6_and a b = IPv6_Addr (IPv6_bits a AND IPv6_bits b)"

definition IPv6_or :: "IPv6_Addr \<Rightarrow> IPv6_Addr \<Rightarrow> IPv6_Addr" where
  "IPv6_or a b = IPv6_Addr (IPv6_bits a OR IPv6_bits b)"

definition IPv6_unspecified :: "IPv6_Addr \<Rightarrow> bool" where
  "IPv6_unspecified a = (IPv6_bits a = 0)"

section \<open>\<open>IP::Addr\<close>\<close>

text \<open>
  The four exceptions of \<open>ip.hpp\<close>. \<open>ip_parse_exception\<close> is declared with
  \<open>OPENVPN_EXCEPTION\<close> and carries the text streamed into \<open>OPENVPN_THROW\<close>.
\<close>

datatype ip_error =
    ip_addr_unspecified
  | ip_addr_version_inconsistency
  | ip_render_exception
  | ip_parse_exception string

datatype Version = UNSPEC | V4 | V6

text \<open>
  The class holds the tag \<open>ver\<close> and the union \<open>u\<close>; every path of the source that sets
  \<open>ver\<close> to \<open>V4\<close> or \<open>V6\<close> writes the matching member of \<open>u\<close>, and no path reads a member
  under another tag. The value is the tag with the member it selects.
\<close>

datatype Addr = Addr_UNSPEC | Addr_V4 IPv4_Addr | Addr_V6 IPv6_Addr

fun ver :: "Addr \<Rightarrow> Version" where
  "ver Addr_UNSPEC = UNSPEC"
| "ver (Addr_V4 _) = V4"
| "ver (Addr_V6 _) = V6"

text \<open>The default constructor: \<open>ver = UNSPEC\<close>.\<close>

definition Addr_default :: Addr where
  "Addr_default = Addr_UNSPEC"

definition from_ipv4 :: "IPv4_Addr \<Rightarrow> Addr" where
  "from_ipv4 addr = Addr_V4 addr"

definition from_ipv6 :: "IPv6_Addr \<Rightarrow> Addr" where
  "from_ipv6 addr = Addr_V6 addr"

definition from_asio :: "asio_address \<Rightarrow> ip_error + Addr" where
  "from_asio addr =
     (case addr of
        Asio_v4 a4 \<Rightarrow> Inr (Addr_V4 (IPv4_from_asio a4))
      | Asio_v6 a6 \<Rightarrow> Inr (Addr_V6 (IPv6_from_asio a6))
      | Asio_other \<Rightarrow> Inl ip_addr_unspecified)"

definition to_asio :: "Addr \<Rightarrow> ip_error + asio_address" where
  "to_asio a =
     (case a of
        Addr_V4 v4 \<Rightarrow> Inr (Asio_v4 (IPv4_to_asio v4))
      | Addr_V6 v6 \<Rightarrow> Inr (Asio_v6 (IPv6_to_asio v6))
      | Addr_UNSPEC \<Rightarrow> Inl ip_addr_unspecified)"

text \<open>
  The text of the parse exception:
  \<open>"error parsing " << title << " IP address '" << ipstr << "' : " << ec.message()\<close>,
  where a null \<open>title\<close> has been replaced by the empty string.
\<close>

definition parse_error_text :: "string option \<Rightarrow> string \<Rightarrow> error_code \<Rightarrow> string" where
  "parse_error_text title ipstr ec =
     ''error parsing '' @ (case title of None \<Rightarrow> [] | Some t \<Rightarrow> t) @ '' IP address '' @
     [CHR 0x27] @ ipstr @ [CHR 0x27] @ '' : '' @ message ec"

definition from_string :: "asio_parser \<Rightarrow> string \<Rightarrow> string option \<Rightarrow> ip_error + Addr" where
  "from_string parse ipstr title =
     (case parse ipstr of
        Inl ec \<Rightarrow> Inl (ip_parse_exception (parse_error_text title ipstr ec))
      | Inr a \<Rightarrow> from_asio a)"

definition to_string :: "asio_renderer \<Rightarrow> Addr \<Rightarrow> ip_error + string" where
  "to_string render a =
     (if ver a \<noteq> UNSPEC then
        (case to_asio a of
           Inl e \<Rightarrow> Inl e
         | Inr g \<Rightarrow> (case render g of Inl ec \<Rightarrow> Inl ip_render_exception | Inr ret \<Rightarrow> Inr ret))
      else Inr ''UNSPEC'')"

definition validate :: "asio_parser \<Rightarrow> asio_renderer \<Rightarrow> string \<Rightarrow> string option \<Rightarrow> ip_error + string" where
  "validate parse render ipstr title =
     (case from_string parse ipstr title of
        Inl e \<Rightarrow> Inl e
      | Inr a \<Rightarrow> to_string render a)"

text \<open>\<open>operator&\<close> and \<open>operator|\<close>: the tag comparison comes first, then the switch on \<open>ver\<close>.\<close>

definition bitwise_and :: "Addr \<Rightarrow> Addr \<Rightarrow> ip_error + Addr" where
  "bitwise_and a other =
     (if ver a \<noteq> ver other then Inl ip_addr_version_inconsistency
      else (case (a, other) of
              (Addr_V4 x, Addr_V4 y) \<Rightarrow> Inr (Addr_V4 (IPv4_and x y))
            | (Addr_V6 x, Addr_V6 y) \<Rightarrow> Inr (Addr_V6 (IPv6_and x y))
            | _ \<Rightarrow> Inl ip_addr_unspecified))"

definition bitwise_or :: "Addr \<Rightarrow> Addr \<Rightarrow> ip_error + Addr" where
  "bitwise_or a other =
     (if ver a \<noteq> ver other then Inl ip_addr_version_inconsistency
      else (case (a, other) of
              (Addr_V4 x, Addr_V4 y) \<Rightarrow> Inr (Addr_V4 (IPv4_or x y))
            | (Addr_V6 x, Addr_V6 y) \<Rightarrow> Inr (Addr_V6 (IPv6_or x y))
            | _ \<Rightarrow> Inl ip_addr_unspecified))"

text \<open>
  \<open>reset_ipv4_from_uint32\<close> is the one method that is neither static nor const: it
  takes the object and returns it updated.
\<close>

definition reset_ipv4_from_uint32 :: "Addr \<Rightarrow> IPv4_base_type \<Rightarrow> Addr" where
  "reset_ipv4_from_uint32 self addr = Addr_V4 (IPv4_from_uint32 addr)"

definition unspecified :: "Addr \<Rightarrow> bool" where
  "unspecified a =
     (case a of
        Addr_V4 v4 \<Rightarrow> IPv4_unspecified v4
      | Addr_V6 v6 \<Rightarrow> IPv6_unspecified v6
      | Addr_UNSPEC \<Rightarrow> True)"

text \<open>Running one fallible step after another, as a sequence of calls that may throw.\<close>

definition and_then :: "'e + 'a \<Rightarrow> ('a \<Rightarrow> 'e + 'b) \<Rightarrow> 'e + 'b" where
  "and_then r f = (case r of Inl e \<Rightarrow> Inl e | Inr x \<Rightarrow> f x)"

section \<open>A dotted-quad parser and renderer\<close>

text \<open>
  Modelled from the spec: the text parser and renderer of the networking library, for
  the IPv4 family only (\<open>dotted-quad for v4\<close>): four decimal octets without leading
  zeros, separated by dots, the most significant octet of the host-order value first.
  The renderer reports an error for any other generic address, the parser for any other
  text. The operations of \<open>Addr\<close> take the parser and the renderer as parameters; these two
  are the instance on which the scenarios are run.
\<close>

definition digit_char :: "nat \<Rightarrow> char" where
  "digit_char n = char_of (48 + n)"

definition octet_text :: "nat \<Rightarrow> string" where
  "octet_text n =
     (if n < 10 then [digit_char n]
      else if n < 100 then [digit_char (n div 10), digit_char (n mod 10)]
      else [digit_char (n div 100), digit_char (n div 10 mod 10), digit_char (n mod 10)])"

definition octet :: "nat \<Rightarrow> 32 word \<Rightarrow> nat" where
  "octet i w = unat (drop_bit (8 * i) w AND 255)"

definition dotted_quad :: "32 word \<Rightarrow> string" where
  "dotted_quad w =
     octet_text (octet 3 w) @ ''.'' @ octet_text (octet 2 w) @ ''.'' @
     octet_text (octet 1 w) @ ''.'' @ octet_text (octet 0 w)"

definition is_digit :: "char \<Rightarrow> bool" where
  "is_digit c = (48 \<le> (of_char c :: nat) \<and> (of_char c :: nat) \<le> 57)"

definition digit_value :: "char \<Rightarrow> nat" where
  "digit_value c = of_char c - 48"

fun decimal_value :: "nat \<Rightarrow> string \<Rightarrow> nat" where
  "decimal_value acc [] = acc"
| "decimal_value acc (c # cs) = decimal_value (10 * acc + digit_value c) cs"

definition parse_octet :: "string \<Rightarrow> nat option" where
  "parse_octet ds =
     (if ds = [] then None
      else if 3 < length ds then None
      else if list_ex (\<lambda>c. \<not> is_digit c) ds then None
      else if 1 < length ds \<and> hd ds = CHR ''0'' then None
      else if 255 < decimal_value 0 ds then None
      else Some (decimal_value 0 ds))"

fun split_dots :: "string \<Rightarrow> string list" where
  "split_dots [] = [[]]"
| "split_dots (c # cs) =
     (if c = CHR ''.'' then [] # split_dots cs
      else (case split_dots cs of
              [] \<Rightarrow> [[c]]
            | p # ps \<Rightarrow> (c # p) # ps))"

definition octets_value :: "nat \<Rightarrow> nat \<Rightarrow> nat \<Rightarrow> nat \<Rightarrow> 32 word" where
  "octets_value a b c d =
     push_bit 24 (word_of_nat a) OR push_bit 16 (word_of_nat b) OR
     push_bit 8 (word_of_nat c) OR word_of_nat d"

definition parse_dotted_quad :: "string \<Rightarrow> 32 word option" where
  "parse_dotted_quad s =
     (case map parse_octet (split_dots s) of
        [Some a, Some b, Some c, Some d] \<Rightarrow> Some (octets_value a b c d)
      | _ \<Rightarrow> None)"

definition dotted_quad_parser :: asio_parser where
  "dotted_quad_parser s =
     (case parse_dotted_quad s of
        None \<Rightarrow> Inl (Error_code ''Invalid argument'')
      | Some w \<Rightarrow> Inr (Asio_v4 w))"

definition dotted_quad_renderer :: asio_renderer where
  "dotted_quad_renderer g =
     (case g of
        Asio_v4 w \<Rightarrow> Inr (dotted_quad w)
      | Asio_v6 _ \<Rightarrow> Inl (Error_code ''Address family not supported by protocol'')
      | Asio_other \<Rightarrow> Inl (Error_code ''Address family not supported by protocol''))"

text \<open>The pieces of a text put together again with dots between them.\<close>

fun join_dots :: "string list \<Rightarrow> string" where
  "join_dots [] = []"
| "join_dots [p] = p"
| "join_dots (p # q # ps) = p @ CHR ''.'' # join_dots (q # ps)"

text \<open>
  The canonical text of \<open>s\<close>, in the spec's words \<open>normalized(s)\<close>: what the renderer
  writes for the address the parser reads from \<open>s\<close>; \<open>None\<close> when \<open>s\<close> has no address or
  the address has no text.
\<close>

definition normalized :: "asio_parser \<Rightarrow> asio_renderer \<Rightarrow> string \<Rightarrow> string option" where
  "normalized parse render s =
     (case parse s of
        Inl _ \<Rightarrow> None
      | Inr g \<Rightarrow> (case render g of Inl _ \<Rightarrow> None | Inr t \<Rightarrow> Some t))"

text \<open>
  Bit \<open>n\<close> of the fixed-width value an address holds; an \<open>UNSPEC\<close> address holds none.
\<close>

definition addr_bit :: "Addr \<Rightarrow> nat \<Rightarrow> bool" where
  "addr_bit a n =
     (case a of
        Addr_V4 v4 \<Rightarrow> bit (IPv4_to_uint32 v4) n
      | Addr_V6 v6 \<Rightarrow> bit (IPv6_bits v6) n
      | Addr_UNSPEC \<Rightarrow> False)"

section \<open>Basic facts\<close>

lemma ver_UNSPEC_iff: "(ver a = UNSPEC) = (a = Addr_UNSPEC)"
  by (cases a) simp_all

lemma ver_V4_iff: "(ver a = V4) = (\<exists>v. a = Addr_V4 v)"
  by (cases a) simp_all

lemma ver_V6_iff: "(ver a = V6) = (\<exists>v. a = Addr_V6 v)"
  by (cases a) simp_all

lemma bitwise_and_differ:
  "ver a \<noteq> ver b \<Longrightarrow> bitwise_and a b = Inl ip_addr_version_inconsistency"
  by (simp add: bitwise_and_def)

lemma bitwise_or_differ:
  "ver a \<noteq> ver b \<Longrightarrow> bitwise_or a b = Inl ip_addr_version_inconsistency"
  by (simp add: bitwise_or_def)

lemma bitwise_and_UNSPEC: "bitwise_and Addr_UNSPEC Addr_UNSPEC = Inl ip_addr_unspecified"
  by (simp add: bitwise_and_def)

lemma bitwise_or_UNSPEC: "bitwise_or Addr_UNSPEC Addr_UNSPEC = Inl ip_addr_unspecified"
  by (simp add: bitwise_or_def)

lemma bitwise_and_V4: "bitwise_and (Addr_V4 x) (Addr_V4 y) = Inr (Addr_V4 (IPv4_and x y))"
  by (simp add: bitwise_and_def)

lemma bitwise_and_V6: "bitwise_and (Addr_V6 x) (Addr_V6 y) = Inr (Addr_V6 (IPv6_and x y))"
  by (simp add: bitwise_and_def)

lemma bitwise_or_V4: "bitwise_or (Addr_V4 x) (Addr_V4 y) = Inr (Addr_V4 (IPv4_or x y))"
  by (simp add: bitwise_or_def)

lemma bitwise_or_V6: "bitwise_or (Addr_V6 x) (Addr_V6 y) = Inr (Addr_V6 (IPv6_or x y))"
  by (simp add: bitwise_or_def)

lemma bitwise_and_unspecified_iff:
  "(bitwise_and a b = Inl ip_addr_unspecified) = (ver a = UNSPEC \<and> ver b = UNSPEC)"
  by (cases a; cases b) (simp_all add: bitwise_and_def)

lemma bitwise_or_unspecified_iff:
  "(bitwise_or a b = Inl ip_addr_unspecified) = (ver a = UNSPEC \<and> ver b = UNSPEC)"
  by (cases a; cases b) (simp_all add: bitwise_or_def)

lemma to_string_UNSPEC: "to_string render Addr_UNSPEC = Inr ''UNSPEC''"
  by (simp add: to_string_def)

lemma to_string_V4:
  "to_string render (Addr_V4 v) =
     (case render (Asio_v4 (IPv4_to_asio v)) of
        Inl ec \<Rightarrow> Inl ip_render_exception | Inr t \<Rightarrow> Inr t)"
  by (simp add: to_string_def to_asio_def)

lemma to_string_V6:
  "to_string render (Addr_V6 v) =
     (case render (Asio_v6 (IPv6_to_asio v)) of
        Inl ec \<Rightarrow> Inl ip_render_exception | Inr t \<Rightarrow> Inr t)"
  by (simp add: to_string_def to_asio_def)

lemma IPv4_asio_inverse: "IPv4_to_asio (IPv4_from_asio x) = x"
  by (simp add: IPv4_to_asio_def IPv4_from_asio_def)

lemma IPv6_asio_inverse: "IPv6_to_asio (IPv6_from_asio x) = x"
  by (simp add: IPv6_to_asio_def IPv6_from_asio_def)

lemma parse_dotted_quad_192_168_1_10: "parse_dotted_quad ''192.168.1.10'' = Some 0xC0A8010A"
  by code_simp

lemma parse_dotted_quad_255_255_255_0: "parse_dotted_quad ''255.255.255.0'' = Some 0xFFFFFF00"
  by code_simp

lemma parse_dotted_quad_not_an_ip: "parse_dotted_quad ''not-an-ip'' = None"
  by code_simp

lemma dotted_quad_192_168_1_0: "dotted_quad 0xC0A80100 = ''192.168.1.0''"
  by code_simp

lemma dotted_quad_192_168_1_10: "dotted_quad 0xC0A8010A = ''192.168.1.10''"
  by code_simp

lemma same_family_cases:
  assumes "ver a = ver b" and "ver a \<noteq> UNSPEC"
  obtains (v4) x y where "a = Addr_V4 x" "b = Addr_V4 y"
        | (v6) x y where "a = Addr_V6 x" "b = Addr_V6 y"
  using assms by (cases a; cases b) simp_all

lemma from_asio_to_asio:
  "is_v4 g \<or> is_v6 g \<Longrightarrow> \<exists>a. from_asio g = Inr a \<and> ver a \<noteq> UNSPEC \<and> to_asio a = Inr g"
  by (cases g) (simp_all add: from_asio_def to_asio_def IPv4_asio_inverse IPv6_asio_inverse)

lemma to_string_concrete:
  "ver a \<noteq> UNSPEC \<Longrightarrow> to_asio a = Inr g \<Longrightarrow>
   to_string render a = (case render g of Inl ec \<Rightarrow> Inl ip_render_exception | Inr ret \<Rightarrow> Inr ret)"
  by (simp add: to_string_def)

lemma validate_concrete:
  assumes "parse s = Inr g" and "is_v4 g \<or> is_v6 g"
  shows "validate parse render s title =
           (case render g of Inl ec \<Rightarrow> Inl ip_render_exception | Inr ret \<Rightarrow> Inr ret)"
proof -
  from assms(2) obtain a where a: "from_asio g = Inr a" "ver a \<noteq> UNSPEC" "to_asio a = Inr g"
    using from_asio_to_asio by blast
  from assms(1) a(1) have "from_string parse s title = Inr a"
    by (simp add: from_string_def)
  then have "validate parse render s title = to_string render a"
    by (simp add: validate_def)
  with a show ?thesis
    by (simp add: to_string_concrete)
qed

lemma validate_and_then:
  "validate parse render s title = and_then (from_string parse s title) (to_string render)"
  by (simp add: validate_def and_then_def)

lemma from_string_rejected:
  "parse s = Inl ec \<Longrightarrow>
   from_string parse s title = Inl (ip_parse_exception (parse_error_text title s ec))"
  by (simp add: from_string_def)

lemma from_string_parse_exception_iff:
  "(\<exists>m. from_string parse s title = Inl (ip_parse_exception m)) = (\<exists>ec. parse s = Inl ec)"
proof (cases "parse s")
  case (Inl ec)
  then show ?thesis by (simp add: from_string_def)
next
  case (Inr g)
  then show ?thesis by (cases g) (simp_all add: from_string_def from_asio_def)
qed

lemma to_string_no_parse_exception: "to_string render a \<noteq> Inl (ip_parse_exception m)"
proof (cases a)
  case Addr_UNSPEC
  then show ?thesis by (simp add: to_string_UNSPEC)
next
  case (Addr_V4 v)
  then show ?thesis by (simp add: to_string_V4 split: sum.split)
next
  case (Addr_V6 v)
  then show ?thesis by (simp add: to_string_V6 split: sum.split)
qed

lemma validate_parse_exception_iff:
  "(\<exists>m. validate parse render s title = Inl (ip_parse_exception m)) =
   (\<exists>m. from_string parse s title = Inl (ip_parse_exception m))"
  by (cases "from_string parse s title") (simp_all add: validate_def to_string_no_parse_exception)

lemma dotted_quad_parser_192_168_1_10:
  "dotted_quad_parser ''192.168.1.10'' = Inr (Asio_v4 0xC0A8010A)"
  by (simp add: dotted_quad_parser_def parse_dotted_quad_192_168_1_10)

lemma dotted_quad_parser_255_255_255_0:
  "dotted_quad_parser ''255.255.255.0'' = Inr (Asio_v4 0xFFFFFF00)"
  by (simp add: dotted_quad_parser_def parse_dotted_quad_255_255_255_0)

lemma dotted_quad_parser_not_an_ip:
  "dotted_quad_parser ''not-an-ip'' = Inl (Error_code ''Invalid argument'')"
  by (simp add: dotted_quad_parser_def parse_dotted_quad_not_an_ip)

lemma from_string_192_168_1_10:
  "from_string dotted_quad_parser ''192.168.1.10'' None = Inr (Addr_V4 (IPv4_Addr 0xC0A8010A))"
  by (simp add: from_string_def dotted_quad_parser_192_168_1_10 from_asio_def IPv4_from_asio_def)

lemma from_string_255_255_255_0:
  "from_string dotted_quad_parser ''255.255.255.0'' None = Inr (Addr_V4 (IPv4_Addr 0xFFFFFF00))"
  by (simp add: from_string_def dotted_quad_parser_255_255_255_0 from_asio_def IPv4_from_asio_def)

lemma to_string_dotted_quad:
  "to_string dotted_quad_renderer (Addr_V4 (IPv4_Addr w)) = Inr (dotted_quad w)"
  by (simp add: to_string_V4 IPv4_to_asio_def dotted_quad_renderer_def)

lemma network_address_scenario:
  "and_then (from_string dotted_quad_parser ''192.168.1.10'' None) (\<lambda>a.
     and_then (from_string dotted_quad_parser ''255.255.255.0'' None) (\<lambda>m.
       and_then (bitwise_and a m) (to_string dotted_quad_renderer))) = Inr ''192.168.1.0''"
  by (simp add: and_then_def from_string_192_168_1_10 from_string_255_255_255_0
      bitwise_and_V4 IPv4_and_def to_string_dotted_quad dotted_quad_192_168_1_0)

lemma parse_error_text_example:
  "parse_error_text (Some ''remote'') ''not-an-ip'' (Error_code ''Invalid argument'') =
     ''error parsing remote IP address 'not-an-ip' : Invalid argument''"
  by (simp add: parse_error_text_def)

lemma validate_not_an_ip:
  "validate dotted_quad_parser render ''not-an-ip'' None =
     Inl (ip_parse_exception ''error parsing  IP address 'not-an-ip' : Invalid argument'')"
  by (simp add: validate_def from_string_def dotted_quad_parser_not_an_ip parse_error_text_def)

subsection \<open>The dotted quad of a 32-bit value and back\<close>

lemma of_char_digit_char: "d < 10 \<Longrightarrow> (of_char (digit_char d) :: nat) = 48 + d"
  by (simp add: digit_char_def)

lemma is_digit_digit_char: "d < 10 \<Longrightarrow> is_digit (digit_char d)"
  by (simp add: is_digit_def of_char_digit_char)

lemma digit_value_digit_char: "d < 10 \<Longrightarrow> digit_value (digit_char d) = d"
  by (simp add: digit_value_def of_char_digit_char)

lemma digit_char_not_dot: "d < 10 \<Longrightarrow> digit_char d \<noteq> CHR ''.''"
proof
  assume "d < 10" and "digit_char d = CHR ''.''"
  then have "(of_char (digit_char d) :: nat) = of_char CHR ''.''" by simp
  with \<open>d < 10\<close> show False by (simp add: of_char_digit_char)
qed

lemma digit_char_zero: "d < 10 \<Longrightarrow> (digit_char d = CHR ''0'') = (d = 0)"
proof
  assume "d < 10" and "digit_char d = CHR ''0''"
  then have "(of_char (digit_char d) :: nat) = of_char CHR ''0''" by simp
  with \<open>d < 10\<close> show "d = 0" by (simp add: of_char_digit_char)
next
  assume "d = 0"
  moreover have "char_of (48 :: nat) = CHR ''0''" by code_simp
  ultimately show "digit_char d = CHR ''0''"
    by (simp add: digit_char_def)
qed

lemma octet_less: "octet i w < 256"
proof -
  have "drop_bit (8 * i) w AND 255 \<le> (255 :: 32 word)"
    by (rule word_and_le1)
  then have "unat (drop_bit (8 * i) w AND 255) \<le> unat (255 :: 32 word)"
    by (simp only: word_le_nat_alt)
  then show ?thesis
    by (simp add: octet_def)
qed

lemma mask8: "(255 :: 32 word) = mask 8"
  by (simp add: mask_eq_exp_minus_1)

lemma word_of_octet: "(word_of_nat (octet i w) :: 32 word) = drop_bit (8 * i) w AND 255"
  by (simp add: octet_def)

lemma octets_value_octets: "octets_value (octet 3 w) (octet 2 w) (octet 1 w) (octet 0 w) = w"
  unfolding octets_value_def word_of_octet mask8
proof (rule bit_word_eqI)
  fix n :: nat
  assume "n < LENGTH(32)"
  then have n: "n < 32" by simp
  consider "n < 8" | "8 \<le> n" "n < 16" | "16 \<le> n" "n < 24" | "24 \<le> n" "n < 32"
    using n by linarith
  then show "bit (push_bit 24 (drop_bit (8 * 3) w AND mask 8) OR
                push_bit 16 (drop_bit (8 * 2) w AND mask 8) OR
                push_bit 8 (drop_bit (8 * 1) w AND mask 8) OR (drop_bit (8 * 0) w AND mask 8)) n =
             bit w n"
    by cases (auto simp add: bit_simps)
qed

lemma parse_octet_1: "a < 10 \<Longrightarrow> parse_octet [digit_char a] = Some a"
  by (simp add: parse_octet_def is_digit_digit_char digit_value_digit_char)

lemma parse_octet_2:
  "a < 10 \<Longrightarrow> b < 10 \<Longrightarrow> a \<noteq> 0 \<Longrightarrow>
   parse_octet [digit_char a, digit_char b] = Some (10 * a + b)"
  by (simp add: parse_octet_def is_digit_digit_char digit_value_digit_char digit_char_zero)

lemma parse_octet_3:
  "a < 10 \<Longrightarrow> b < 10 \<Longrightarrow> c < 10 \<Longrightarrow> a \<noteq> 0 \<Longrightarrow> 10 * (10 * a + b) + c < 256 \<Longrightarrow>
   parse_octet [digit_char a, digit_char b, digit_char c] = Some (10 * (10 * a + b) + c)"
  by (simp add: parse_octet_def is_digit_digit_char digit_value_digit_char digit_char_zero)

lemma two_digits:
  "10 \<le> n \<Longrightarrow> n < 100 \<Longrightarrow> n div 10 < 10 \<and> n mod 10 < 10 \<and> n div 10 \<noteq> (0::nat)"
  by arith

lemma three_digits:
  "100 \<le> n \<Longrightarrow> n < 256 \<Longrightarrow>
   n div 100 < 10 \<and> n div 10 mod 10 < 10 \<and> n mod 10 < 10 \<and> n div 100 \<noteq> (0::nat)"
  by arith

lemma three_digits_value: "10 * (10 * (n div 100) + n div 10 mod 10) + n mod 10 = (n::nat)"
proof -
  have "n div 100 = n div 10 div 10"
    by (simp add: div_mult2_eq)
  then have "10 * (n div 100) + n div 10 mod 10 = n div 10"
    by simp
  then show ?thesis
    by simp
qed

lemma parse_octet_octet_text:
  assumes n: "n < 256"
  shows "parse_octet (octet_text n) = Some n"
proof -
  consider "n < 10" | "10 \<le> n" "n < 100" | "100 \<le> n"
    by linarith
  then show ?thesis
  proof cases
    case 1
    then show ?thesis
      by (simp add: octet_text_def parse_octet_1)
  next
    case 2
    from two_digits [OF 2]
    have d: "n div 10 < 10" "n mod 10 < 10" "n div 10 \<noteq> 0"
      by blast+
    have v: "10 * (n div 10) + n mod 10 = n"
      by simp
    from 2 have "octet_text n = [digit_char (n div 10), digit_char (n mod 10)]"
      by (simp add: octet_text_def)
    with parse_octet_2 [OF d] v show ?thesis
      by (simp only:)
  next
    case 3
    from three_digits [OF 3 n]
    have d: "n div 100 < 10" "n div 10 mod 10 < 10" "n mod 10 < 10" "n div 100 \<noteq> 0"
      by blast+
    note v = three_digits_value [of n]
    from 3 have t: "octet_text n =
        [digit_char (n div 100), digit_char (n div 10 mod 10), digit_char (n mod 10)]"
      by (simp add: octet_text_def)
    from n v have "10 * (10 * (n div 100) + n div 10 mod 10) + n mod 10 < 256"
      by (simp only:)
    from parse_octet_3 [OF d this] t v show ?thesis
      by (simp only:)
  qed
qed

lemma octet_text_no_dot:
  assumes n: "n < 256"
  shows "CHR ''.'' \<notin> set (octet_text n)"
proof -
  from n have "n div 100 < 10" "n div 10 mod 10 < 10" "n mod 10 < 10"
    by arith+
  then show ?thesis
    using digit_char_not_dot [of "n div 100"] digit_char_not_dot [of "n div 10 mod 10"]
      digit_char_not_dot [of "n mod 10"] digit_char_not_dot [of "n div 10"]
      digit_char_not_dot [of n]
    by (auto simp add: octet_text_def)
qed

lemma split_dots_no_dot: "CHR ''.'' \<notin> set p \<Longrightarrow> split_dots p = [p]"
  by (induction p) auto

lemma split_dots_append:
  "CHR ''.'' \<notin> set p \<Longrightarrow> split_dots (p @ CHR ''.'' # rest) = p # split_dots rest"
  by (induction p) auto

lemma split_dots_dotted_quad:
  "split_dots (dotted_quad w) =
     [octet_text (octet 3 w), octet_text (octet 2 w), octet_text (octet 1 w),
      octet_text (octet 0 w)]"
  by (simp add: dotted_quad_def split_dots_append split_dots_no_dot octet_text_no_dot octet_less
      del: One_nat_def)

lemma parse_dotted_quad_dotted_quad: "parse_dotted_quad (dotted_quad w) = Some w"
  by (simp add: parse_dotted_quad_def split_dots_dotted_quad parse_octet_octet_text octet_less
      octets_value_octets del: One_nat_def)

lemma bit_octet:
  assumes "a < (256 :: nat)" and "bit a n"
  shows "n < 8"
proof -
  from assms(1) have "take_bit 8 a = a"
    by (simp add: take_bit_nat_eq_self)
  with assms(2) have "bit (take_bit 8 a) n"
    by simp
  then show ?thesis
    by (simp add: bit_take_bit_iff)
qed

lemma unat_octet_word: "a < 256 \<Longrightarrow> unat (word_of_nat a :: 32 word) = a"
  by (simp add: unat_of_nat)

lemma octet_octets_value:
  assumes "a < 256" "b < 256" "c < 256" "d < 256"
  shows "octet 3 (octets_value a b c d) = a" "octet 2 (octets_value a b c d) = b"
    "octet 1 (octets_value a b c d) = c" "octet 0 (octets_value a b c d) = d"
proof -
  note small = bit_octet [OF assms(1)] bit_octet [OF assms(2)]
    bit_octet [OF assms(3)] bit_octet [OF assms(4)]
  have 3: "drop_bit (8 * 3) (octets_value a b c d) AND 255 = word_of_nat a"
    unfolding octets_value_def mask8
    by (rule bit_word_eqI) (auto simp add: bit_simps dest: small)
  have 2: "drop_bit (8 * 2) (octets_value a b c d) AND 255 = word_of_nat b"
    unfolding octets_value_def mask8
    by (rule bit_word_eqI) (auto simp add: bit_simps dest: small)
  have 1: "drop_bit (8 * 1) (octets_value a b c d) AND 255 = word_of_nat c"
    unfolding octets_value_def mask8
    by (rule bit_word_eqI) (auto simp add: bit_simps dest: small)
  have 0: "drop_bit (8 * 0) (octets_value a b c d) AND 255 = word_of_nat d"
    unfolding octets_value_def mask8
    by (rule bit_word_eqI) (auto simp add: bit_simps dest: small)
  from 3 assms show "octet 3 (octets_value a b c d) = a"
    by (simp only: octet_def unat_octet_word)
  from 2 assms show "octet 2 (octets_value a b c d) = b"
    by (simp only: octet_def unat_octet_word)
  from 1 assms show "octet 1 (octets_value a b c d) = c"
    by (simp only: octet_def unat_octet_word)
  from 0 assms show "octet 0 (octets_value a b c d) = d"
    by (simp only: octet_def unat_octet_word)
qed

lemma split_dots_not_Nil: "split_dots s \<noteq> []"
  by (induction s) (auto split: list.split)

lemma join_dots_Cons: "ps \<noteq> [] \<Longrightarrow> join_dots (p # ps) = p @ CHR ''.'' # join_dots ps"
  by (cases ps) simp_all

lemma join_dots_split_dots: "join_dots (split_dots s) = s"
proof (induction s)
  case Nil
  show ?case by simp
next
  case (Cons c s)
  obtain p ps where sp: "split_dots s = p # ps"
    using split_dots_not_Nil [of s] by (cases "split_dots s") auto
  show ?case
  proof (cases "c = CHR ''.''")
    case True
    with Cons sp show ?thesis
      by simp
  next
    case False
    with Cons sp show ?thesis
      by (cases ps) simp_all
  qed
qed

lemma digit_char_digit_value: "is_digit c \<Longrightarrow> digit_char (digit_value c) = c"
  by (simp add: is_digit_def digit_char_def digit_value_def)

lemma digit_value_less: "is_digit c \<Longrightarrow> digit_value c < 10"
  by (auto simp add: is_digit_def digit_value_def)

lemma digit_value_zero: "is_digit c \<Longrightarrow> digit_value c = 0 \<Longrightarrow> c = CHR ''0''"
  using digit_char_digit_value [of c] digit_char_zero [of 0] by simp

lemma octet_text_1: "a < 10 \<Longrightarrow> octet_text a = [digit_char a]"
  by (simp add: octet_text_def)

lemma octet_text_2:
  assumes "a < 10" "b < 10" "a \<noteq> 0"
  shows "octet_text (10 * a + b) = [digit_char a, digit_char b]"
proof -
  from assms have "(10 * a + b) div 10 = a" "(10 * a + b) mod 10 = b"
    "\<not> 10 * a + b < 10" "10 * a + b < 100"
    by simp_all
  then show ?thesis
    by (simp only: octet_text_def if_True if_False)
qed

lemma div_mod_digits:
  fixes q r :: nat
  assumes "r < k"
  shows "(k * q + r) div k = q" "(k * q + r) mod k = r"
  using assms by simp_all

lemma octet_text_3:
  assumes "a < 10" "b < 10" "c < 10" "a \<noteq> 0"
  shows "octet_text (10 * (10 * a + b) + c) = [digit_char a, digit_char b, digit_char c]"
proof -
  let ?n = "10 * (10 * a + b) + c"
  from assms(2,3) have bc: "10 * b + c < 100"
    by simp
  have e: "?n = 100 * a + (10 * b + c)"
    by simp
  have 1: "?n div 100 = a"
    unfolding e using bc by (rule div_mod_digits(1))
  from assms(3) have 2: "?n div 10 = 10 * a + b"
    by (rule div_mod_digits(1))
  from assms(2) have "(10 * a + b) mod 10 = b"
    by (rule div_mod_digits(2))
  with 2 have 3: "?n div 10 mod 10 = b"
    by (simp only:)
  from assms(3) have 4: "?n mod 10 = c"
    by (rule div_mod_digits(2))
  from assms(4) have 5: "\<not> ?n < 10" "\<not> ?n < 100"
    by simp_all
  from 1 3 4 5 show ?thesis
    by (simp only: octet_text_def if_True if_False)
qed

lemma parse_octet_Some:
  assumes "parse_octet p = Some n"
  shows "octet_text n = p \<and> n < 256"
proof -
  from assms have p: "p \<noteq> []" "length p \<le> 3" "\<forall>c \<in> set p. is_digit c"
    "length p \<le> 1 \<or> hd p \<noteq> CHR ''0''" "decimal_value 0 p \<le> 255" "n = decimal_value 0 p"
    by (auto simp add: parse_octet_def list_ex_iff split: if_splits)
  then consider (one) c1 where "p = [c1]" | (two) c1 c2 where "p = [c1, c2]"
    | (three) c1 c2 c3 where "p = [c1, c2, c3]"
    by (cases p; cases "tl p"; cases "tl (tl p)"; cases "tl (tl (tl p))") auto
  then show ?thesis
  proof cases
    case one
    with p have "is_digit c1" "n = digit_value c1"
      by simp_all
    with one show ?thesis
      using digit_value_less [of c1] by (simp add: octet_text_1 digit_char_digit_value)
  next
    case two
    with p have d: "is_digit c1" "is_digit c2" "c1 \<noteq> CHR ''0''"
      and n: "n = 10 * digit_value c1 + digit_value c2" "n \<le> 255"
      by simp_all
    from d have "digit_value c1 \<noteq> 0"
      using digit_value_zero [of c1] by blast
    with d n two show ?thesis
      by (simp add: octet_text_2 digit_value_less digit_char_digit_value)
  next
    case three
    with p have d: "is_digit c1" "is_digit c2" "is_digit c3" "c1 \<noteq> CHR ''0''"
      and n: "n = 10 * (10 * digit_value c1 + digit_value c2) + digit_value c3" "n \<le> 255"
      by simp_all
    from d have "digit_value c1 \<noteq> 0"
      using digit_value_zero [of c1] by blast
    with d have v: "digit_value c1 < 10" "digit_value c2 < 10" "digit_value c3 < 10"
      by (simp_all add: digit_value_less)
    from octet_text_3 [OF v \<open>digit_value c1 \<noteq> 0\<close>] d n three show ?thesis
      by (simp only: digit_char_digit_value) simp
  qed
qed

lemma dotted_quad_parse_dotted_quad:
  assumes "parse_dotted_quad s = Some w"
  shows "dotted_quad w = s"
proof -
  from assms obtain p1 p2 p3 p4 a b c d where
    sp: "split_dots s = [p1, p2, p3, p4]" and
    oc: "parse_octet p1 = Some a" "parse_octet p2 = Some b" "parse_octet p3 = Some c"
      "parse_octet p4 = Some d" and
    w: "w = octets_value a b c d"
    by (auto simp add: parse_dotted_quad_def split: list.splits option.splits)
  from oc have t: "octet_text a = p1" "octet_text b = p2" "octet_text c = p3" "octet_text d = p4"
    and l: "a < 256" "b < 256" "c < 256" "d < 256"
    using parse_octet_Some by blast+
  from join_dots_split_dots [of s] sp have "s = p1 @ ''.'' @ p2 @ ''.'' @ p3 @ ''.'' @ p4"
    by simp
  with t w octet_octets_value [OF l] show ?thesis
    by (simp add: dotted_quad_def del: One_nat_def)
qed

lemma from_string_dotted_quad:
  "from_string dotted_quad_parser (dotted_quad w) title = Inr (Addr_V4 (IPv4_Addr w))"
  by (simp add: from_string_def dotted_quad_parser_def parse_dotted_quad_dotted_quad
      from_asio_def IPv4_from_asio_def)

lemma dotted_quad_round_trip:
  assumes "dotted_quad_parser s = Inr g"
  shows "and_then (from_string dotted_quad_parser s title) (to_string dotted_quad_renderer) = Inr s"
proof -
  from assms obtain w where w: "parse_dotted_quad s = Some w" and g: "g = Asio_v4 w"
    by (auto simp add: dotted_quad_parser_def split: option.splits)
  from w have "dotted_quad w = s"
    by (rule dotted_quad_parse_dotted_quad)
  with assms g show ?thesis
    by (simp add: and_then_def from_string_def from_asio_def IPv4_from_asio_def
        to_string_dotted_quad)
qed

section \<open>Failures of the bitwise operators\<close>

text \<open>
  C1, as stated, asks for \<open>ip_addr_unspecified\<close> whenever the receiver is \<open>UNSPEC\<close>.
  With a default-constructed receiver and a V4 argument built from the integer 1 the tags
  differ, and \<open>operator&\<close> and \<open>operator|\<close> throw \<open>ip_addr_version_inconsistency\<close>
  from their first statement, before the switch on \<open>ver\<close> is reached.
\<close>

theorem bitwise_unspec_receiver_counterexample:
  "ver Addr_default = UNSPEC \<and>
   bitwise_and Addr_default (from_ipv4 (IPv4_from_uint32 1)) = Inl ip_addr_version_inconsistency \<and>
   bitwise_and Addr_default (from_ipv4 (IPv4_from_uint32 1)) \<noteq> Inl ip_addr_unspecified \<and>
   bitwise_or Addr_default (from_ipv4 (IPv4_from_uint32 1)) = Inl ip_addr_version_inconsistency \<and>
   bitwise_or Addr_default (from_ipv4 (IPv4_from_uint32 1)) \<noteq> Inl ip_addr_unspecified"
  by (simp add: Addr_default_def from_ipv4_def bitwise_and_def bitwise_or_def)

text \<open>
  C1 (amended): for every pair of \<open>Addr\<close> values \<open>a\<close> and \<open>b\<close>, \<open>a & b\<close> and \<open>a | b\<close> fail
  with \<open>ip_addr_version_inconsistency\<close> when the tags of the operands differ, and fail
  with \<open>ip_addr_unspecified\<close> when the receiver's tag is \<open>UNSPEC\<close> and the argument's tag is
  \<open>UNSPEC\<close> as well. In particular a V4 receiver with a V6 argument fails with
  \<open>ip_addr_version_inconsistency\<close>, and a default-constructed receiver with a
  default-constructed argument fails with \<open>ip_addr_unspecified\<close>.
\<close>

theorem bitwise_errors:
  "(ver a \<noteq> ver b \<longrightarrow>
      bitwise_and a b = Inl ip_addr_version_inconsistency \<and>
      bitwise_or a b = Inl ip_addr_version_inconsistency) \<and>
   (ver a = UNSPEC \<and> ver b = UNSPEC \<longrightarrow>
      bitwise_and a b = Inl ip_addr_unspecified \<and>
      bitwise_or a b = Inl ip_addr_unspecified) \<and>
   bitwise_and (from_ipv4 x4) (from_ipv6 y6) = Inl ip_addr_version_inconsistency \<and>
   bitwise_or (from_ipv4 x4) (from_ipv6 y6) = Inl ip_addr_version_inconsistency \<and>
   bitwise_and Addr_default Addr_default = Inl ip_addr_unspecified \<and>
   bitwise_or Addr_default Addr_default = Inl ip_addr_unspecified"
  by (simp add: bitwise_and_differ bitwise_or_differ bitwise_and_unspecified_iff
      bitwise_or_unspecified_iff from_ipv4_def from_ipv6_def Addr_default_def)

theorem bitwise_errors_witness:
  "ver Addr_default \<noteq> ver (from_ipv6 (IPv6_Addr 1)) \<and>
   bitwise_and Addr_default (from_ipv6 (IPv6_Addr 1)) = Inl ip_addr_version_inconsistency \<and>
   bitwise_or Addr_default (from_ipv6 (IPv6_Addr 1)) = Inl ip_addr_version_inconsistency \<and>
   ver Addr_default = UNSPEC \<and>
   bitwise_and Addr_default Addr_default = Inl ip_addr_unspecified \<and>
   bitwise_or Addr_default Addr_default = Inl ip_addr_unspecified"
proof -
  have tags: "ver Addr_default \<noteq> ver (from_ipv6 (IPv6_Addr 1))" "ver Addr_default = UNSPEC"
    by (simp_all add: Addr_default_def from_ipv6_def)
  from tags bitwise_errors [of Addr_default "from_ipv6 (IPv6_Addr 1)"]
    bitwise_errors [of Addr_default Addr_default]
  show ?thesis by blast
qed

text \<open>
  C3: when the tags of the two operands differ, \<open>operator&\<close> and \<open>operator|\<close> throw
  \<open>ip_addr_version_inconsistency\<close>, also when one of the operands is \<open>UNSPEC\<close>: the
  comparison of the tags is made before the switch on \<open>ver\<close>. An \<open>UNSPEC\<close> receiver with
  a V4 or V6 argument fails with \<open>ip_addr_version_inconsistency\<close>, and
  \<open>ip_addr_unspecified\<close> is thrown exactly when both operands are \<open>UNSPEC\<close>.
\<close>

theorem tag_check_precedes_concreteness:
  "(ver a \<noteq> ver b \<longrightarrow>
      bitwise_and a b = Inl ip_addr_version_inconsistency \<and>
      bitwise_or a b = Inl ip_addr_version_inconsistency) \<and>
   (bitwise_and a b = Inl ip_addr_unspecified \<longleftrightarrow> ver a = UNSPEC \<and> ver b = UNSPEC) \<and>
   (bitwise_or a b = Inl ip_addr_unspecified \<longleftrightarrow> ver a = UNSPEC \<and> ver b = UNSPEC) \<and>
   bitwise_and Addr_UNSPEC (Addr_V4 x4) = Inl ip_addr_version_inconsistency \<and>
   bitwise_and Addr_UNSPEC (Addr_V6 x6) = Inl ip_addr_version_inconsistency \<and>
   bitwise_or Addr_UNSPEC (Addr_V4 x4) = Inl ip_addr_version_inconsistency \<and>
   bitwise_or Addr_UNSPEC (Addr_V6 x6) = Inl ip_addr_version_inconsistency \<and>
   bitwise_and (Addr_V4 x4) Addr_UNSPEC = Inl ip_addr_version_inconsistency \<and>
   bitwise_and (Addr_V6 x6) Addr_UNSPEC = Inl ip_addr_version_inconsistency \<and>
   bitwise_or (Addr_V4 x4) Addr_UNSPEC = Inl ip_addr_version_inconsistency \<and>
   bitwise_or (Addr_V6 x6) Addr_UNSPEC = Inl ip_addr_version_inconsistency"
  by (simp add: bitwise_and_differ bitwise_or_differ bitwise_and_unspecified_iff
      bitwise_or_unspecified_iff)

theorem tag_check_precedes_concreteness_witness:
  "ver Addr_UNSPEC \<noteq> ver (Addr_V4 (IPv4_Addr 0xC0A8010A)) \<and>
   bitwise_and Addr_UNSPEC (Addr_V4 (IPv4_Addr 0xC0A8010A)) = Inl ip_addr_version_inconsistency \<and>
   bitwise_or Addr_UNSPEC (Addr_V4 (IPv4_Addr 0xC0A8010A)) = Inl ip_addr_version_inconsistency \<and>
   bitwise_and Addr_UNSPEC (Addr_V4 (IPv4_Addr 0xC0A8010A)) \<noteq> Inl ip_addr_unspecified"
proof -
  have tags: "ver Addr_UNSPEC \<noteq> ver (Addr_V4 (IPv4_Addr 0xC0A8010A))"
    by simp
  from tags tag_check_precedes_concreteness [of Addr_UNSPEC "Addr_V4 (IPv4_Addr 0xC0A8010A)"]
  show ?thesis by simp
qed

section \<open>Bitwise combination within a family\<close>

text \<open>
  C2: for two addresses that are both V4 or both V6, \<open>a & b\<close> and \<open>a | b\<close> succeed;
  the result carries the tag of the operands and each bit of its value is the AND
  (respectively the OR) of the bits of the operands' values at that position. The operators
  are const methods with a const reference argument: they return a new value and the
  operands stay as they are. With the dotted-quad parser and renderer, the address parsed
  from \<open>192.168.1.10\<close> ANDed with the one parsed from \<open>255.255.255.0\<close> renders as
  \<open>192.168.1.0\<close>.
\<close>

theorem bitwise_same_family:
  "(ver a = ver b \<and> ver a \<noteq> UNSPEC \<longrightarrow>
      (\<exists>c. bitwise_and a b = Inr c \<and> ver c = ver a \<and>
           (\<forall>n. addr_bit c n = (addr_bit a n \<and> addr_bit b n))) \<and>
      (\<exists>d. bitwise_or a b = Inr d \<and> ver d = ver a \<and>
           (\<forall>n. addr_bit d n = (addr_bit a n \<or> addr_bit b n)))) \<and>
   bitwise_and (Addr_V4 (IPv4_Addr x)) (Addr_V4 (IPv4_Addr y)) = Inr (Addr_V4 (IPv4_Addr (x AND y))) \<and>
   bitwise_or (Addr_V4 (IPv4_Addr x)) (Addr_V4 (IPv4_Addr y)) = Inr (Addr_V4 (IPv4_Addr (x OR y))) \<and>
   bitwise_and (Addr_V6 (IPv6_Addr p)) (Addr_V6 (IPv6_Addr q)) = Inr (Addr_V6 (IPv6_Addr (p AND q))) \<and>
   bitwise_or (Addr_V6 (IPv6_Addr p)) (Addr_V6 (IPv6_Addr q)) = Inr (Addr_V6 (IPv6_Addr (p OR q))) \<and>
   and_then (from_string dotted_quad_parser ''192.168.1.10'' None) (\<lambda>a.
     and_then (from_string dotted_quad_parser ''255.255.255.0'' None) (\<lambda>m.
       and_then (bitwise_and a m) (to_string dotted_quad_renderer))) = Inr ''192.168.1.0''"
proof -
  have general: "(\<exists>c. bitwise_and a b = Inr c \<and> ver c = ver a \<and>
           (\<forall>n. addr_bit c n = (addr_bit a n \<and> addr_bit b n))) \<and>
      (\<exists>d. bitwise_or a b = Inr d \<and> ver d = ver a \<and>
           (\<forall>n. addr_bit d n = (addr_bit a n \<or> addr_bit b n)))"
    if "ver a = ver b" and "ver a \<noteq> UNSPEC"
    using that
  proof (cases rule: same_family_cases)
    case (v4 x y)
    then show ?thesis
      by (simp add: bitwise_and_V4 bitwise_or_V4 IPv4_and_def IPv4_or_def addr_bit_def
          bit_and_iff bit_or_iff)
  next
    case (v6 x y)
    then show ?thesis
      by (simp add: bitwise_and_V6 bitwise_or_V6 IPv6_and_def IPv6_or_def addr_bit_def
          bit_and_iff bit_or_iff)
  qed
  have explicit:
    "bitwise_and (Addr_V4 (IPv4_Addr x)) (Addr_V4 (IPv4_Addr y)) = Inr (Addr_V4 (IPv4_Addr (x AND y)))"
    "bitwise_or (Addr_V4 (IPv4_Addr x)) (Addr_V4 (IPv4_Addr y)) = Inr (Addr_V4 (IPv4_Addr (x OR y)))"
    "bitwise_and (Addr_V6 (IPv6_Addr p)) (Addr_V6 (IPv6_Addr q)) = Inr (Addr_V6 (IPv6_Addr (p AND q)))"
    "bitwise_or (Addr_V6 (IPv6_Addr p)) (Addr_V6 (IPv6_Addr q)) = Inr (Addr_V6 (IPv6_Addr (p OR q)))"
    by (simp_all add: bitwise_and_V4 bitwise_or_V4 bitwise_and_V6 bitwise_or_V6 IPv4_and_def
        IPv4_or_def IPv6_and_def IPv6_or_def)
  from general explicit network_address_scenario show ?thesis
    by blast
qed

theorem bitwise_same_family_witness:
  "ver (Addr_V6 (IPv6_Addr 0xFF01)) = ver (Addr_V6 (IPv6_Addr 0xFFF0)) \<and>
   ver (Addr_V6 (IPv6_Addr 0xFF01)) \<noteq> UNSPEC \<and>
   (\<exists>c. bitwise_and (Addr_V6 (IPv6_Addr 0xFF01)) (Addr_V6 (IPv6_Addr 0xFFF0)) = Inr c \<and> ver c = V6) \<and>
   (\<exists>d. bitwise_or (Addr_V6 (IPv6_Addr 0xFF01)) (Addr_V6 (IPv6_Addr 0xFFF0)) = Inr d \<and> ver d = V6)"
proof -
  have tags: "ver (Addr_V6 (IPv6_Addr 0xFF01)) = ver (Addr_V6 (IPv6_Addr 0xFFF0)) \<and>
      ver (Addr_V6 (IPv6_Addr 0xFF01)) \<noteq> UNSPEC"
    by simp
  have V6: "ver (Addr_V6 (IPv6_Addr 0xFF01)) = V6"
    by simp
  from bitwise_same_family [of "Addr_V6 (IPv6_Addr 0xFF01)" "Addr_V6 (IPv6_Addr 0xFFF0)"] tags
  have "(\<exists>c. bitwise_and (Addr_V6 (IPv6_Addr 0xFF01)) (Addr_V6 (IPv6_Addr 0xFFF0)) = Inr c \<and>
            ver c = ver (Addr_V6 (IPv6_Addr 0xFF01))) \<and>
        (\<exists>d. bitwise_or (Addr_V6 (IPv6_Addr 0xFF01)) (Addr_V6 (IPv6_Addr 0xFFF0)) = Inr d \<and>
            ver d = ver (Addr_V6 (IPv6_Addr 0xFF01)))"
    by blast
  with tags V6 show ?thesis by simp
qed

text \<open>
  C10: for two concrete addresses of the same family, applying the second operand once
  more changes nothing: \<open>(a & b) & b = a & b\<close> and \<open>(a | b) | b = a | b\<close>, and none of
  these calls throws.
\<close>

theorem bitwise_reapply_idempotent:
  assumes "ver a = ver b" and "ver a \<noteq> UNSPEC"
  shows "(\<exists>c. bitwise_and a b = Inr c \<and> bitwise_and c b = Inr c) \<and>
         (\<exists>d. bitwise_or a b = Inr d \<and> bitwise_or d b = Inr d) \<and>
         and_then (bitwise_and a b) (\<lambda>c. bitwise_and c b) = bitwise_and a b \<and>
         and_then (bitwise_or a b) (\<lambda>d. bitwise_or d b) = bitwise_or a b"
proof (cases a)
  case Addr_UNSPEC
  with assms show ?thesis by simp
next
  case (Addr_V4 x)
  with assms obtain y where "b = Addr_V4 y" by (cases b) simp_all
  with Addr_V4 show ?thesis
    by (simp add: bitwise_and_V4 bitwise_or_V4 and_then_def IPv4_and_def IPv4_or_def
        and.assoc or.assoc)
next
  case (Addr_V6 x)
  with assms obtain y where "b = Addr_V6 y" by (cases b) simp_all
  with Addr_V6 show ?thesis
    by (simp add: bitwise_and_V6 bitwise_or_V6 and_then_def IPv6_and_def IPv6_or_def
        and.assoc or.assoc)
qed

theorem bitwise_reapply_idempotent_witness:
  "ver (Addr_V4 (IPv4_Addr 0xC0A8010A)) = ver (Addr_V4 (IPv4_Addr 0xFFFFFF00)) \<and>
   ver (Addr_V4 (IPv4_Addr 0xC0A8010A)) \<noteq> UNSPEC \<and>
   bitwise_and (Addr_V4 (IPv4_Addr 0xC0A8010A)) (Addr_V4 (IPv4_Addr 0xFFFFFF00)) =
     Inr (Addr_V4 (IPv4_Addr 0xC0A80100)) \<and>
   and_then (bitwise_and (Addr_V4 (IPv4_Addr 0xC0A8010A)) (Addr_V4 (IPv4_Addr 0xFFFFFF00)))
     (\<lambda>c. bitwise_and c (Addr_V4 (IPv4_Addr 0xFFFFFF00))) = Inr (Addr_V4 (IPv4_Addr 0xC0A80100)) \<and>
   and_then (bitwise_or (Addr_V4 (IPv4_Addr 0xC0A8010A)) (Addr_V4 (IPv4_Addr 0xFFFFFF00)))
     (\<lambda>d. bitwise_or d (Addr_V4 (IPv4_Addr 0xFFFFFF00))) = Inr (Addr_V4 (IPv4_Addr 0xFFFFFF0A))"
proof -
  have tags: "ver (Addr_V4 (IPv4_Addr 0xC0A8010A)) = ver (Addr_V4 (IPv4_Addr 0xFFFFFF00))"
    "ver (Addr_V4 (IPv4_Addr 0xC0A8010A)) \<noteq> UNSPEC"
    by simp_all
  have vals: "bitwise_and (Addr_V4 (IPv4_Addr 0xC0A8010A)) (Addr_V4 (IPv4_Addr 0xFFFFFF00)) =
      Inr (Addr_V4 (IPv4_Addr 0xC0A80100))"
    "bitwise_or (Addr_V4 (IPv4_Addr 0xC0A8010A)) (Addr_V4 (IPv4_Addr 0xFFFFFF00)) =
      Inr (Addr_V4 (IPv4_Addr 0xFFFFFF0A))"
    by (simp_all add: bitwise_and_V4 bitwise_or_V4 IPv4_and_def IPv4_or_def)
  from bitwise_reapply_idempotent [OF tags] tags vals
  show ?thesis by simp
qed

section \<open>Text\<close>

text \<open>
  C5: \<open>to_string\<close> returns the literal \<open>UNSPEC\<close> for an address whose tag is \<open>UNSPEC\<close>.
  For a V4 or V6 address it hands the generic form of the address to the renderer of the
  library; it fails, with \<open>ip_render_exception\<close>, exactly when the renderer sets its error
  code, and returns the renderer's text otherwise.
\<close>

theorem to_string_cases:
  "(ver a = UNSPEC \<longrightarrow> to_string render a = Inr ''UNSPEC'') \<and>
   (ver a \<noteq> UNSPEC \<longrightarrow>
      (\<exists>g. to_asio a = Inr g \<and>
         (to_string render a = Inl ip_render_exception \<longleftrightarrow> (\<exists>ec. render g = Inl ec)) \<and>
         ((\<exists>e. to_string render a = Inl e) \<longleftrightarrow> (\<exists>ec. render g = Inl ec)) \<and>
         (\<forall>ret. render g = Inr ret \<longrightarrow> to_string render a = Inr ret)))"
proof (cases a)
  case Addr_UNSPEC
  then show ?thesis by (simp add: to_string_UNSPEC)
next
  case (Addr_V4 v)
  then show ?thesis
    by (cases "render (Asio_v4 (IPv4_to_asio v))") (simp_all add: to_string_V4 to_asio_def)
next
  case (Addr_V6 v)
  then show ?thesis
    by (cases "render (Asio_v6 (IPv6_to_asio v))") (simp_all add: to_string_V6 to_asio_def)
qed

theorem to_string_cases_witness:
  "ver Addr_default = UNSPEC \<and>
   to_string dotted_quad_renderer Addr_default = Inr ''UNSPEC'' \<and>
   ver (Addr_V4 (IPv4_Addr 0xC0A8010A)) \<noteq> UNSPEC \<and>
   to_asio (Addr_V4 (IPv4_Addr 0xC0A8010A)) = Inr (Asio_v4 0xC0A8010A) \<and>
   dotted_quad_renderer (Asio_v4 0xC0A8010A) = Inr ''192.168.1.10'' \<and>
   to_string dotted_quad_renderer (Addr_V4 (IPv4_Addr 0xC0A8010A)) = Inr ''192.168.1.10'' \<and>
   ver (Addr_V6 (IPv6_Addr 1)) \<noteq> UNSPEC \<and>
   to_asio (Addr_V6 (IPv6_Addr 1)) = Inr (Asio_v6 1) \<and>
   dotted_quad_renderer (Asio_v6 1) = Inl (Error_code ''Address family not supported by protocol'') \<and>
   to_string dotted_quad_renderer (Addr_V6 (IPv6_Addr 1)) = Inl ip_render_exception"
proof -
  have unspec: "ver Addr_default = UNSPEC"
    by (simp add: Addr_default_def)
  have v4: "ver (Addr_V4 (IPv4_Addr 0xC0A8010A)) \<noteq> UNSPEC"
    "to_asio (Addr_V4 (IPv4_Addr 0xC0A8010A)) = Inr (Asio_v4 0xC0A8010A)"
    "dotted_quad_renderer (Asio_v4 0xC0A8010A) = Inr ''192.168.1.10''"
    by (simp_all add: to_asio_def IPv4_to_asio_def dotted_quad_renderer_def dotted_quad_192_168_1_10)
  have v6: "ver (Addr_V6 (IPv6_Addr 1)) \<noteq> UNSPEC"
    "to_asio (Addr_V6 (IPv6_Addr 1)) = Inr (Asio_v6 1)"
    "dotted_quad_renderer (Asio_v6 1) = Inl (Error_code ''Address family not supported by protocol'')"
    by (simp_all add: to_asio_def IPv6_to_asio_def dotted_quad_renderer_def)
  from to_string_cases [of Addr_default dotted_quad_renderer] unspec
  have 1: "to_string dotted_quad_renderer Addr_default = Inr ''UNSPEC''"
    by blast
  from to_string_cases [of "Addr_V4 (IPv4_Addr 0xC0A8010A)" dotted_quad_renderer] v4
  have 2: "to_string dotted_quad_renderer (Addr_V4 (IPv4_Addr 0xC0A8010A)) = Inr ''192.168.1.10''"
    by auto
  from to_string_cases [of "Addr_V6 (IPv6_Addr 1)" dotted_quad_renderer] v6
  have 3: "to_string dotted_quad_renderer (Addr_V6 (IPv6_Addr 1)) = Inl ip_render_exception"
    by auto
  from unspec v4 v6 1 2 3 show ?thesis by blast
qed

text \<open>
  C4: when the parser accepts \<open>s\<close> as an IPv4 address, \<open>from_string(s).to_string()\<close> is the
  canonical text of \<open>s\<close>, that is the text the renderer writes for the address the parser
  read (and \<open>ip_render_exception\<close> in the case that the renderer writes none); the same
  holds when the parser accepts \<open>s\<close> as an IPv6 address. With the dotted-quad parser and
  renderer the canonical text of an accepted \<open>s\<close> is \<open>s\<close> itself.
\<close>

theorem from_string_to_string_round_trip:
  "(parse s = Inr (Asio_v4 a4) \<longrightarrow>
      and_then (from_string parse s title) (to_string render) =
        (case normalized parse render s of None \<Rightarrow> Inl ip_render_exception | Some t \<Rightarrow> Inr t) \<and>
      (\<forall>t. normalized parse render s = Some t \<longrightarrow>
         and_then (from_string parse s title) (to_string render) = Inr t)) \<and>
   (parse s = Inr (Asio_v6 a6) \<longrightarrow>
      and_then (from_string parse s title) (to_string render) =
        (case normalized parse render s of None \<Rightarrow> Inl ip_render_exception | Some t \<Rightarrow> Inr t) \<and>
      (\<forall>t. normalized parse render s = Some t \<longrightarrow>
         and_then (from_string parse s title) (to_string render) = Inr t)) \<and>
   (dotted_quad_parser s = Inr (Asio_v4 a4) \<longrightarrow>
      normalized dotted_quad_parser dotted_quad_renderer s = Some s \<and>
      and_then (from_string dotted_quad_parser s title) (to_string dotted_quad_renderer) = Inr s)"
proof -
  have general: "and_then (from_string parse s title) (to_string render) =
        (case normalized parse render s of None \<Rightarrow> Inl ip_render_exception | Some t \<Rightarrow> Inr t)"
    if "parse s = Inr g" and "is_v4 g \<or> is_v6 g" for g
    using validate_concrete [of parse s g render title] that
    by (simp add: validate_and_then normalized_def split: sum.split)
  have quad: "normalized dotted_quad_parser dotted_quad_renderer s = Some s \<and>
      and_then (from_string dotted_quad_parser s title) (to_string dotted_quad_renderer) = Inr s"
    if p: "dotted_quad_parser s = Inr (Asio_v4 a4)"
  proof -
    from p have "parse_dotted_quad s = Some a4"
      by (simp add: dotted_quad_parser_def split: option.splits)
    then have "dotted_quad a4 = s"
      by (rule dotted_quad_parse_dotted_quad)
    with p have "normalized dotted_quad_parser dotted_quad_renderer s = Some s"
      by (simp add: normalized_def dotted_quad_renderer_def)
    with dotted_quad_round_trip [OF p] show ?thesis
      by simp
  qed
  from general [of "Asio_v4 a4"] general [of "Asio_v6 a6"] quad show ?thesis
    by simp
qed

theorem from_string_to_string_round_trip_witness:
  "dotted_quad_parser ''192.168.1.10'' = Inr (Asio_v4 0xC0A8010A) \<and>
   normalized dotted_quad_parser dotted_quad_renderer ''192.168.1.10'' = Some ''192.168.1.10'' \<and>
   and_then (from_string dotted_quad_parser ''192.168.1.10'' None)
     (to_string dotted_quad_renderer) = Inr ''192.168.1.10'' \<and>
   (\<lambda>s. Inr (Asio_v6 1)) ''::1'' = (Inr (Asio_v6 1) :: error_code + asio_address) \<and>
   normalized (\<lambda>s. Inr (Asio_v6 1)) (\<lambda>g. Inr ''::1'') ''0:0:0:0:0:0:0:1'' = Some ''::1'' \<and>
   and_then (from_string (\<lambda>s. Inr (Asio_v6 1)) ''0:0:0:0:0:0:0:1'' None)
     (to_string (\<lambda>g. Inr ''::1'')) = Inr ''::1''"
proof -
  have n4: "normalized dotted_quad_parser dotted_quad_renderer ''192.168.1.10'' = Some ''192.168.1.10''"
    by (simp add: normalized_def dotted_quad_parser_192_168_1_10 dotted_quad_renderer_def
        dotted_quad_192_168_1_10)
  have n6: "normalized (\<lambda>s. Inr (Asio_v6 1)) (\<lambda>g. Inr ''::1'') ''0:0:0:0:0:0:0:1'' = Some ''::1''"
    by (simp add: normalized_def)
  from from_string_to_string_round_trip [of dotted_quad_parser "''192.168.1.10''" "0xC0A8010A"
      None dotted_quad_renderer] dotted_quad_parser_192_168_1_10 n4
  have r4: "and_then (from_string dotted_quad_parser ''192.168.1.10'' None)
     (to_string dotted_quad_renderer) = Inr ''192.168.1.10''"
    by simp
  from from_string_to_string_round_trip [of "\<lambda>s. Inr (Asio_v6 1)" "''0:0:0:0:0:0:0:1''" _
      None "\<lambda>g. Inr ''::1''" 1] n6
  have r6: "and_then (from_string (\<lambda>s. Inr (Asio_v6 1)) ''0:0:0:0:0:0:0:1'' None)
     (to_string (\<lambda>g. Inr ''::1'')) = Inr ''::1''"
    by simp
  from dotted_quad_parser_192_168_1_10 n4 n6 r4 r6 show ?thesis
    by simp
qed

text \<open>
  C6: \<open>validate(s, title)\<close> is \<open>from_string(s, title)\<close> followed by \<open>to_string()\<close>. It
  fails with \<open>ip_parse_exception\<close>, whose text holds \<open>title\<close> and \<open>s\<close>, exactly when the
  parser rejects \<open>s\<close>, which is when \<open>from_string\<close> fails with that exception; every failure
  of \<open>from_string\<close> is the failure of \<open>validate\<close>. When the parser accepts \<open>s\<close> as a v4
  or v6 address, \<open>from_string\<close> succeeds, and \<open>validate\<close> fails with
  \<open>ip_render_exception\<close> if the renderer fails on that address and returns the renderer's
  text otherwise. For a parser whose accepted addresses are all v4 or v6, \<open>from_string\<close>
  fails exactly when the parser rejects \<open>s\<close>. The dotted-quad parser rejects \<open>not-an-ip\<close>.
\<close>

theorem validate_parse_then_render:
  "validate parse render s title = and_then (from_string parse s title) (to_string render) \<and>
   (\<forall>ec. parse s = Inl ec \<longrightarrow>
      from_string parse s title = Inl (ip_parse_exception (parse_error_text title s ec)) \<and>
      validate parse render s title = Inl (ip_parse_exception (parse_error_text title s ec))) \<and>
   ((\<exists>m. validate parse render s title = Inl (ip_parse_exception m)) \<longleftrightarrow>
      (\<exists>ec. parse s = Inl ec)) \<and>
   ((\<exists>m. validate parse render s title = Inl (ip_parse_exception m)) \<longleftrightarrow>
      (\<exists>m. from_string parse s title = Inl (ip_parse_exception m))) \<and>
   (\<forall>e. from_string parse s title = Inl e \<longrightarrow> validate parse render s title = Inl e) \<and>
   (\<forall>g. parse s = Inr g \<and> (is_v4 g \<or> is_v6 g) \<longrightarrow>
      (\<exists>a. from_string parse s title = Inr a) \<and>
      ((\<exists>ec. render g = Inl ec) \<longrightarrow> validate parse render s title = Inl ip_render_exception) \<and>
      (\<forall>ret. render g = Inr ret \<longrightarrow> validate parse render s title = Inr ret)) \<and>
   ((\<forall>g. parse s = Inr g \<longrightarrow> is_v4 g \<or> is_v6 g) \<longrightarrow>
      ((\<exists>e. from_string parse s title = Inl e) \<longleftrightarrow> (\<exists>ec. parse s = Inl ec)) \<and>
      ((\<exists>m. validate parse render s title = Inl (ip_parse_exception m)) \<longleftrightarrow>
         (\<exists>e. from_string parse s title = Inl e))) \<and>
   validate dotted_quad_parser render ''not-an-ip'' None =
     Inl (ip_parse_exception ''error parsing  IP address 'not-an-ip' : Invalid argument'')"
proof -
  have rejected: "from_string parse s title = Inl (ip_parse_exception (parse_error_text title s ec)) \<and>
      validate parse render s title = Inl (ip_parse_exception (parse_error_text title s ec))"
    if "parse s = Inl ec" for ec
    using that by (simp add: validate_def from_string_def)
  have iff_parser: "(\<exists>m. validate parse render s title = Inl (ip_parse_exception m)) \<longleftrightarrow>
      (\<exists>ec. parse s = Inl ec)"
    by (simp only: validate_parse_exception_iff from_string_parse_exception_iff)
  have propagated: "validate parse render s title = Inl e"
    if "from_string parse s title = Inl e" for e
    using that by (simp add: validate_def)
  have accepted: "(\<exists>a. from_string parse s title = Inr a) \<and>
      ((\<exists>ec. render g = Inl ec) \<longrightarrow> validate parse render s title = Inl ip_render_exception) \<and>
      (\<forall>ret. render g = Inr ret \<longrightarrow> validate parse render s title = Inr ret)"
    if "parse s = Inr g" and "is_v4 g \<or> is_v6 g" for g
  proof -
    from that(2) obtain a where "from_asio g = Inr a"
      using from_asio_to_asio by blast
    with that(1) have "from_string parse s title = Inr a"
      by (simp add: from_string_def)
    moreover from validate_concrete [of parse s g render title] that
    have "validate parse render s title =
        (case render g of Inl ec \<Rightarrow> Inl ip_render_exception | Inr ret \<Rightarrow> Inr ret)"
      by simp
    ultimately show ?thesis
      by auto
  qed
  have contract: "((\<exists>e. from_string parse s title = Inl e) \<longleftrightarrow> (\<exists>ec. parse s = Inl ec)) \<and>
      ((\<exists>m. validate parse render s title = Inl (ip_parse_exception m)) \<longleftrightarrow>
         (\<exists>e. from_string parse s title = Inl e))"
    if concrete: "\<forall>g. parse s = Inr g \<longrightarrow> is_v4 g \<or> is_v6 g"
  proof -
    have "(\<exists>e. from_string parse s title = Inl e) \<longleftrightarrow> (\<exists>ec. parse s = Inl ec)"
    proof (cases "parse s")
      case (Inl ec)
      then show ?thesis by (simp add: from_string_def)
    next
      case (Inr g)
      with concrete accepted [of g] show ?thesis by auto
    qed
    with iff_parser show ?thesis by simp
  qed
  from rejected iff_parser propagated accepted contract show ?thesis
    by (simp only: validate_and_then [symmetric] validate_parse_exception_iff [symmetric]
        validate_not_an_ip) blast
qed

theorem validate_parse_then_render_witness:
  "dotted_quad_parser ''not-an-ip'' = Inl (Error_code ''Invalid argument'') \<and>
   validate dotted_quad_parser dotted_quad_renderer ''not-an-ip'' (Some ''remote'') =
     Inl (ip_parse_exception ''error parsing remote IP address 'not-an-ip' : Invalid argument'') \<and>
   dotted_quad_parser ''192.168.1.10'' = Inr (Asio_v4 0xC0A8010A) \<and>
   is_v4 (Asio_v4 0xC0A8010A) \<and>
   dotted_quad_renderer (Asio_v4 0xC0A8010A) = Inr ''192.168.1.10'' \<and>
   validate dotted_quad_parser dotted_quad_renderer ''192.168.1.10'' (Some ''remote'') =
     Inr ''192.168.1.10'' \<and>
   validate dotted_quad_parser (\<lambda>g. Inl (Error_code ''Invalid argument'')) ''192.168.1.10''
     (Some ''remote'') = Inl ip_render_exception"
proof -
  have rendered: "dotted_quad_renderer (Asio_v4 0xC0A8010A) = Inr ''192.168.1.10''"
    by (simp add: dotted_quad_renderer_def dotted_quad_192_168_1_10)
  have v4: "is_v4 (Asio_v4 0xC0A8010A)"
    by simp
  from validate_parse_then_render [of dotted_quad_parser dotted_quad_renderer "''not-an-ip''"
      "Some ''remote''"]
  have "\<forall>ec. dotted_quad_parser ''not-an-ip'' = Inl ec \<longrightarrow>
      validate dotted_quad_parser dotted_quad_renderer ''not-an-ip'' (Some ''remote'') =
        Inl (ip_parse_exception (parse_error_text (Some ''remote'') ''not-an-ip'' ec))"
    by blast
  with dotted_quad_parser_not_an_ip
  have 1: "validate dotted_quad_parser dotted_quad_renderer ''not-an-ip'' (Some ''remote'') =
     Inl (ip_parse_exception ''error parsing remote IP address 'not-an-ip' : Invalid argument'')"
    by (simp only: parse_error_text_example)
  from validate_parse_then_render [of dotted_quad_parser dotted_quad_renderer "''192.168.1.10''"
      "Some ''remote''"]
  have "\<forall>g. dotted_quad_parser ''192.168.1.10'' = Inr g \<and> (is_v4 g \<or> is_v6 g) \<longrightarrow>
      (\<forall>ret. dotted_quad_renderer g = Inr ret \<longrightarrow>
         validate dotted_quad_parser dotted_quad_renderer ''192.168.1.10'' (Some ''remote'') =
           Inr ret)"
    by blast
  with dotted_quad_parser_192_168_1_10 v4 rendered
  have 2: "validate dotted_quad_parser dotted_quad_renderer ''192.168.1.10'' (Some ''remote'') =
     Inr ''192.168.1.10''"
    by blast
  from validate_parse_then_render [of dotted_quad_parser
      "\<lambda>g. Inl (Error_code ''Invalid argument'')" "''192.168.1.10''" "Some ''remote''"]
  have "\<forall>g. dotted_quad_parser ''192.168.1.10'' = Inr g \<and> (is_v4 g \<or> is_v6 g) \<longrightarrow>
      ((\<exists>ec. (\<lambda>g. Inl (Error_code ''Invalid argument'') :: error_code + string) g = Inl ec) \<longrightarrow>
         validate dotted_quad_parser (\<lambda>g. Inl (Error_code ''Invalid argument''))
           ''192.168.1.10'' (Some ''remote'') = Inl ip_render_exception)"
    by blast
  with dotted_quad_parser_192_168_1_10 v4
  have 3: "validate dotted_quad_parser (\<lambda>g. Inl (Error_code ''Invalid argument''))
      ''192.168.1.10'' (Some ''remote'') = Inl ip_render_exception"
    by blast
  from dotted_quad_parser_not_an_ip dotted_quad_parser_192_168_1_10 v4 rendered 1 2 3
  show ?thesis by blast
qed

section \<open>Conversions, reset and the unspecified check\<close>

text \<open>
  C7: \<open>from_asio\<close> fails, with \<open>ip_addr_unspecified\<close>, exactly when the generic address
  is neither v4 nor v6, and otherwise returns an address tagged with the family of the
  generic address, wrapping its value. \<open>to_asio\<close> fails, with \<open>ip_addr_unspecified\<close>,
  exactly when the tag is \<open>UNSPEC\<close>, and otherwise returns the generic form of the wrapped
  V4 or V6 value.
\<close>

theorem generic_conversions:
  "(from_asio g = Inl ip_addr_unspecified \<longleftrightarrow> \<not> is_v4 g \<and> \<not> is_v6 g) \<and>
   ((\<exists>e. from_asio g = Inl e) \<longleftrightarrow> \<not> is_v4 g \<and> \<not> is_v6 g) \<and>
   (is_v4 g \<longrightarrow> (\<exists>a. from_asio g = Inr a \<and> ver a = V4)) \<and>
   (is_v6 g \<longrightarrow> (\<exists>a. from_asio g = Inr a \<and> ver a = V6)) \<and>
   from_asio (Asio_v4 a4) = Inr (Addr_V4 (IPv4_from_asio a4)) \<and>
   from_asio (Asio_v6 a6) = Inr (Addr_V6 (IPv6_from_asio a6)) \<and>
   (to_asio a = Inl ip_addr_unspecified \<longleftrightarrow> ver a = UNSPEC) \<and>
   ((\<exists>e. to_asio a = Inl e) \<longleftrightarrow> ver a = UNSPEC) \<and>
   to_asio (Addr_V4 v4) = Inr (Asio_v4 (IPv4_to_asio v4)) \<and>
   to_asio (Addr_V6 v6) = Inr (Asio_v6 (IPv6_to_asio v6))"
proof -
  have of_generic: "(from_asio g = Inl ip_addr_unspecified \<longleftrightarrow> \<not> is_v4 g \<and> \<not> is_v6 g) \<and>
      ((\<exists>e. from_asio g = Inl e) \<longleftrightarrow> \<not> is_v4 g \<and> \<not> is_v6 g) \<and>
      (is_v4 g \<longrightarrow> (\<exists>a. from_asio g = Inr a \<and> ver a = V4)) \<and>
      (is_v6 g \<longrightarrow> (\<exists>a. from_asio g = Inr a \<and> ver a = V6))"
    by (cases g) (simp_all add: from_asio_def)
  have to_generic: "(to_asio a = Inl ip_addr_unspecified \<longleftrightarrow> ver a = UNSPEC) \<and>
      ((\<exists>e. to_asio a = Inl e) \<longleftrightarrow> ver a = UNSPEC)"
    by (cases a) (simp_all add: to_asio_def)
  from of_generic to_generic show ?thesis
    by (simp add: from_asio_def to_asio_def)
qed

theorem generic_conversions_witness:
  "is_v4 (Asio_v4 0xC0A8010A) \<and>
   (\<exists>a. from_asio (Asio_v4 0xC0A8010A) = Inr a \<and> ver a = V4) \<and>
   is_v6 (Asio_v6 1) \<and>
   (\<exists>a. from_asio (Asio_v6 1) = Inr a \<and> ver a = V6) \<and>
   from_asio Asio_other = Inl ip_addr_unspecified \<and>
   to_asio Addr_default = Inl ip_addr_unspecified"
proof -
  have classes: "is_v4 (Asio_v4 0xC0A8010A)" "is_v6 (Asio_v6 1)"
    "\<not> is_v4 Asio_other \<and> \<not> is_v6 Asio_other" "ver Addr_default = UNSPEC"
    by (simp_all add: Addr_default_def)
  from classes generic_conversions [of "Asio_v4 0xC0A8010A" _ _ Addr_default]
    generic_conversions [of "Asio_v6 1"] generic_conversions [of Asio_other]
  show ?thesis by blast
qed

text \<open>
  C8: on an address in any state and for any 32-bit integer \<open>raw\<close>,
  \<open>reset_ipv4_from_uint32\<close> returns normally and leaves the address tagged \<open>V4\<close> with the
  IPv4 value made from \<open>raw\<close>; its text is what the renderer writes for the v4 address
  \<open>raw\<close>, the dotted quad of \<open>raw\<close> with the dotted-quad renderer, and the dotted-quad
  parser reads that text back as the same address. Resetting a V6 address with
  \<open>0xC0A8010A\<close> gives the text \<open>192.168.1.10\<close>. It is the one method of the class that is
  neither static nor const.
\<close>

theorem reset_ipv4_from_uint32_lands_in_V4:
  "reset_ipv4_from_uint32 a raw = from_ipv4 (IPv4_from_uint32 raw) \<and>
   ver (reset_ipv4_from_uint32 a raw) = V4 \<and>
   to_asio (reset_ipv4_from_uint32 a raw) = Inr (Asio_v4 raw) \<and>
   to_string render (reset_ipv4_from_uint32 a raw) =
     (case render (Asio_v4 raw) of Inl ec \<Rightarrow> Inl ip_render_exception | Inr ret \<Rightarrow> Inr ret) \<and>
   to_string dotted_quad_renderer (reset_ipv4_from_uint32 a raw) = Inr (dotted_quad raw) \<and>
   from_string dotted_quad_parser (dotted_quad raw) title = Inr (reset_ipv4_from_uint32 a raw) \<and>
   to_string dotted_quad_renderer (reset_ipv4_from_uint32 (from_ipv6 v6) 0xC0A8010A) =
     Inr ''192.168.1.10''"
  by (simp add: reset_ipv4_from_uint32_def from_ipv4_def IPv4_from_uint32_def to_asio_def
      IPv4_to_asio_def to_string_V4 dotted_quad_renderer_def dotted_quad_192_168_1_10
      from_string_dotted_quad)

text \<open>
  C9: \<open>unspecified\<close> answers true exactly when the tag is \<open>UNSPEC\<close>, or the address is V4
  or V6 and the unspecified check of the wrapped value, which holds for the all-zero value,
  answers true. A default-constructed address is unspecified and its text is \<open>UNSPEC\<close>.
\<close>

theorem unspecified_cases:
  "(unspecified a \<longleftrightarrow>
      ver a = UNSPEC \<or> (\<exists>v4. a = Addr_V4 v4 \<and> IPv4_unspecified v4) \<or>
      (\<exists>v6. a = Addr_V6 v6 \<and> IPv6_unspecified v6)) \<and>
   unspecified (Addr_V4 v4) = IPv4_unspecified v4 \<and>
   unspecified (Addr_V6 v6) = IPv6_unspecified v6 \<and>
   unspecified (Addr_V4 (IPv4_Addr w4)) = (w4 = 0) \<and>
   unspecified (Addr_V6 (IPv6_Addr w6)) = (w6 = 0) \<and>
   Addr_default = Addr_UNSPEC \<and> ver Addr_default = UNSPEC \<and>
   unspecified Addr_default \<and>
   to_string render Addr_default = Inr ''UNSPEC''"
proof -
  have "unspecified a \<longleftrightarrow>
      ver a = UNSPEC \<or> (\<exists>v4. a = Addr_V4 v4 \<and> IPv4_unspecified v4) \<or>
      (\<exists>v6. a = Addr_V6 v6 \<and> IPv6_unspecified v6)"
    by (cases a) (simp_all add: unspecified_def)
  then show ?thesis
    by (simp add: unspecified_def IPv4_unspecified_def IPv6_unspecified_def Addr_default_def
        to_string_UNSPEC)
qed

end
